theory Spec2Isabelle
  imports Main "HOL-Library.Word"
begin

section \<open>Common data: machine integers and console output\<close>

text \<open>
  The examples are small C++ programs. An \<^verbatim>\<open>int\<close> is a 32-bit two's complement value:
  it is a \<^typ>\<open>32 word\<close>, read through \<^const>\<open>sint\<close>, and its arithmetic wraps around
  (the C++ standard leaves signed overflow undefined; the wrap-around is what the
  target machines do). An \<^verbatim>\<open>unsigned short\<close> is a \<^typ>\<open>16 word\<close>, read through
  \<^const>\<open>uint\<close>. What a program writes to a stream is a list of tokens, in the order
  written: a piece of text, the decimal rendering of a number, or whatever is rendered
  when the program reads an int from storage whose lifetime has ended (the source calls it
  garbage; the token keeps the address that was read and says nothing about the value).
\<close>

type_synonym cpp_int = "32 word"
type_synonym cpp_ushort = "16 word"
type_synonym addr = nat

datatype token = Text string | Num int | Garbage addr

definition int_range :: "int \<Rightarrow> bool" where
  "int_range k = (- (2 ^ 31) \<le> k \<and> k < 2 ^ 31)"

section \<open>Function parameters and return values (Ex13FunctionParameters)\<close>

text \<open>\<^verbatim>\<open>int add(int x, int y) { return x + y; }\<close>\<close>

definition add :: "cpp_int \<Rightarrow> cpp_int \<Rightarrow> cpp_int" where
  "add x y = x + y"

text \<open>\<^verbatim>\<open>int multiply(int x, int y) { return x * y; }\<close>\<close>

definition multiply :: "cpp_int \<Rightarrow> cpp_int \<Rightarrow> cpp_int" where
  "multiply x y = x * y"

text \<open>
  The "Math examples" lines of \<^verbatim>\<open>main\<close> (76 to 80): the heading, \<^verbatim>\<open>x = 2\<close>,
  \<^verbatim>\<open>y = 3\<close>, then one line for the sum and one for the product.
\<close>

definition math_examples :: "token list" where
  "math_examples =
     (let x = (2 :: cpp_int); y = (3 :: cpp_int) in
      [Text ''Math examples...\<newline>'',
       Num (sint x), Text '' + '', Num (sint y), Text '' = '', Num (sint (add x y)),
         Text ''\<newline>'',
       Num (sint x), Text '' * '', Num (sint y), Text '' = '', Num (sint (multiply x y)),
         Text ''\<newline>''])"

section \<open>The unsigned length problem (ch16 ex03)\<close>

text \<open>
  \<^verbatim>\<open>for (int i = 0; i < n; i++) { counter++; }\<close> with \<^verbatim>\<open>n\<close> an
  \<^verbatim>\<open>unsigned short\<close>: in \<^verbatim>\<open>i < n\<close> the value of \<^verbatim>\<open>n\<close> is promoted to
  \<^verbatim>\<open>int\<close> and the comparison is signed. The body only increments \<^verbatim>\<open>counter\<close>,
  which starts at 0, so the final counter is the number of times the body ran.
\<close>

function doSomethingNTimes_loop :: "cpp_ushort \<Rightarrow> cpp_int \<Rightarrow> cpp_int \<Rightarrow> cpp_int" where
  "doSomethingNTimes_loop n i counter =
     (if sint i < uint n then doSomethingNTimes_loop n (i + 1) (counter + 1) else counter)"
  by pat_completeness auto
termination
proof (relation "measure (\<lambda>(n, i, c). nat (uint n - sint i))")
  show "wf (measure (\<lambda>(n, i, c). nat (uint n - sint i)))" by simp
next
  fix n :: cpp_ushort and i counter :: cpp_int
  assume lt: "sint i < uint n"
  have "uint n < 2 ^ 16" using uint_bounded [of n] by simp
  with lt have up: "sint i + 1 < 2 ^ 31" by simp
  have "- (2 ^ 31) \<le> sint i" using sint_ge [of i] by simp
  then have lo: "- (2 ^ 31) \<le> sint i + 1" by simp
  have "signed_take_bit 31 (sint i + 1) = sint i + 1"
    using lo up by (rule signed_take_bit_int_eq_self)
  then have "sint (i + 1) = sint i + 1" by (simp add: sint_word_add)
  with lt show "((n, i + 1, counter + 1), (n, i, counter))
      \<in> measure (\<lambda>(n, i, c). nat (uint n - sint i))"
    by simp
qed

declare doSomethingNTimes_loop.simps [simp del]

text \<open>\<^verbatim>\<open>void doSomethingNTimes(unsigned short int n)\<close>: the loop, then the report.\<close>

definition doSomethingNTimes :: "cpp_ushort \<Rightarrow> token list" where
  "doSomethingNTimes n =
     (let counter = doSomethingNTimes_loop n 0 0 in
      [Text ''This code ran '', Num (sint counter), Text '' times!\<newline>''])"

text \<open>
  A call \<^verbatim>\<open>doSomethingNTimes(a)\<close> with an \<^verbatim>\<open>int\<close> argument converts the argument
  to the parameter type: the low 16 bits.
\<close>

definition call_doSomethingNTimes :: "cpp_int \<Rightarrow> token list" where
  "call_doSomethingNTimes a = doSomethingNTimes (ucast a)"

section \<open>Storage\<close>

text \<open>
  Variables, closure objects and heap ints live in cells of a store. The store has the
  raw contents of every cell, the set of cells whose lifetime has begun and not ended, the
  next unused address, and the text written to \<^verbatim>\<open>std::cout\<close> so far. A declaration
  or a \<^verbatim>\<open>new\<close> takes the next unused address; none of the examples allocates after
  a \<^verbatim>\<open>delete\<close>, so no address is handed out twice.
\<close>

record machine =
  mem :: "addr \<Rightarrow> cpp_int"
  live :: "addr set"
  next_addr :: addr
  cout :: "token list"

definition empty_machine :: machine where
  "empty_machine = \<lparr>mem = (\<lambda>_. 0), live = {}, next_addr = 0, cout = []\<rparr>"

text \<open>Every live cell was handed out by the store.\<close>

definition wf_machine :: "machine \<Rightarrow> bool" where
  "wf_machine s = (\<forall>a \<in> live s. a < next_addr s)"

text \<open>\<^verbatim>\<open>int x{v};\<close>: a new live cell holding \<open>v\<close>.\<close>

definition declare_int :: "cpp_int \<Rightarrow> machine \<Rightarrow> addr \<times> machine" where
  "declare_int v s =
     (next_addr s,
      s\<lparr>mem := (mem s)(next_addr s := v),
        live := insert (next_addr s) (live s),
        next_addr := Suc (next_addr s)\<rparr>)"


text \<open>\<^verbatim>\<open>delete p;\<close>: the lifetime of the cell ends.\<close>

definition delete_int :: "addr \<Rightarrow> machine \<Rightarrow> machine" where
  "delete_int p s = s\<lparr>live := live s - {p}\<rparr>"

text \<open>A write through a name, a reference or a pointer (the examples only write live cells).\<close>

definition assign :: "addr \<Rightarrow> cpp_int \<Rightarrow> machine \<Rightarrow> machine" where
  "assign p v s = s\<lparr>mem := (mem s)(p := v)\<rparr>"

text \<open>
  \<^verbatim>\<open>std::cout << x\<close> for an int read from the cell \<open>a\<close>: its value when the cell is
  live, garbage when it is not.
\<close>

definition read_token :: "addr \<Rightarrow> machine \<Rightarrow> token" where
  "read_token a s = (if a \<in> live s then Num (sint (mem s a)) else Garbage a)"

definition print_tokens :: "token list \<Rightarrow> machine \<Rightarrow> machine" where
  "print_tokens ts s = s\<lparr>cout := cout s @ ts\<rparr>"

section \<open>Lambda captures (ch20 ex07a)\<close>

text \<open>
  A lambda that captures one int by value is an object with one int member: a cell of
  its own, initialised with a copy of the captured variable.
\<close>

definition capture_by_value :: "addr \<Rightarrow> machine \<Rightarrow> addr \<times> machine" where
  "capture_by_value x s = declare_int (mem s x) s"

text \<open>
  \<^verbatim>\<open>[shells]() mutable { --shells; std::cout << "Threw shell! " << shells << " shells left.\n"; }\<close>,
  called on the closure object at address \<open>c\<close>: inside the body \<^verbatim>\<open>shells\<close> is the member.
\<close>

definition throwShell_call :: "addr \<Rightarrow> machine \<Rightarrow> machine" where
  "throwShell_call c s =
     (let s1 = assign c (mem s c - 1) s
      in print_tokens [Text ''Threw shell! '', read_token c s1, Text '' shells left.\<newline>''] s1)"

text \<open>\<^verbatim>\<open>int shells{3}; auto throwShell{[shells]() mutable {...}};\<close>\<close>

definition mutable_captures_setup :: "machine \<Rightarrow> addr \<times> addr \<times> machine" where
  "mutable_captures_setup s0 =
     (let (shells, s1) = declare_int 3 s0;
          (throwShell, s2) = capture_by_value shells s1
      in (shells, throwShell, s2))"

text \<open>The "Mutable Captures" part of \<^verbatim>\<open>main\<close>: two calls, then the outer variable is printed.\<close>

definition mutable_captures_example :: "machine \<Rightarrow> machine" where
  "mutable_captures_example s0 =
     (let (shells, throwShell, s2) = mutable_captures_setup s0;
          s3 = throwShell_call throwShell s2;
          s4 = throwShell_call throwShell s3;
          s5 = print_tokens [Text ''\<newline>This will be wrong...\<newline>''] s4
      in print_tokens [read_token shells s5, Text '' shells left.\<newline>\<newline>''] s5)"

text \<open>
  A lambda that captures by reference holds the address of the variable; a copy of the
  closure holds the same address.
\<close>

record throwBanana_closure =
  bananas_ref :: addr

definition capture_by_reference :: "addr \<Rightarrow> throwBanana_closure" where
  "capture_by_reference x = \<lparr>bananas_ref = x\<rparr>"

definition copy_throwBanana :: "throwBanana_closure \<Rightarrow> throwBanana_closure" where
  "copy_throwBanana c = \<lparr>bananas_ref = bananas_ref c\<rparr>"

text \<open>
  \<^verbatim>\<open>[&bananas]() { --bananas; std::cout << "Threw banana! " << " bananas left.\n"; }\<close>
  (the body does not print the number).
\<close>

definition throwBanana_call :: "throwBanana_closure \<Rightarrow> machine \<Rightarrow> machine" where
  "throwBanana_call c s =
     (let s1 = assign (bananas_ref c) (mem s (bananas_ref c) - 1) s
      in print_tokens [Text ''Threw banana! '', Text '' bananas left.\<newline>''] s1)"

text \<open>The "Capture By Reference" part of \<^verbatim>\<open>main\<close>.\<close>

definition capture_by_reference_example :: "machine \<Rightarrow> machine" where
  "capture_by_reference_example s0 =
     (let (bananas, s1) = declare_int 3 s0;
          throwBanana = capture_by_reference bananas;
          s2 = throwBanana_call throwBanana s1;
          s3 = throwBanana_call throwBanana s2;
          s4 = print_tokens [Text ''\<newline>This will be right...\<newline>''] s3
      in print_tokens [read_token bananas s4, Text '' left.\<newline>''] s4)"

section \<open>Copies of mutable lambdas (ch20, the lambda copy example)\<close>

text \<open>\<^verbatim>\<open>auto otherCount{count};\<close>: the copy is a new object whose member is copied.\<close>

definition copy_closure :: "addr \<Rightarrow> machine \<Rightarrow> addr \<times> machine" where
  "copy_closure c s = declare_int (mem s c) s"

text \<open>
  \<^verbatim>\<open>[i]() mutable { std::cout << ++i << '\n'; }\<close> called on the closure object at
  address \<open>c\<close>. The lambdas \<^verbatim>\<open>count\<close> and \<^verbatim>\<open>count4\<close> have this same body.
\<close>

definition count_call :: "addr \<Rightarrow> machine \<Rightarrow> machine" where
  "count_call c s =
     (let s1 = assign c (mem s c + 1) s
      in print_tokens [read_token c s1, Text ''\<newline>''] s1)"

text \<open>The "Basic Lambda Copy Example" of \<^verbatim>\<open>main\<close>.\<close>

definition basic_lambda_copy_example :: "machine \<Rightarrow> machine" where
  "basic_lambda_copy_example s0 =
     (let s1 = print_tokens [Text ''Basic lambda copy example...\<newline>''] s0;
          (i, s2) = declare_int 0 s1;
          (count, s3) = capture_by_value i s2;
          s4 = count_call count s3;
          (otherCount, s5) = copy_closure count s4;
          s6 = count_call count s5;
          s7 = count_call otherCount s6
      in s7)"

text \<open>
  \<^verbatim>\<open>std::ref(c)\<close> is a wrapper holding the address of \<open>c\<close>. A
  \<^verbatim>\<open>std::function<void()>\<close> is given by the address of the callable it invokes; built
  from a reference wrapper, that is the wrapped object itself, not a copy.
\<close>

datatype ref_wrapper = Ref addr

datatype std_function = Target addr

fun function_from_wrapper :: "ref_wrapper \<Rightarrow> std_function" where
  "function_from_wrapper (Ref c) = Target c"

text \<open>\<^verbatim>\<open>void myInvoke(const std::function<void()> &fn) { fn(); }\<close>\<close>

fun myInvoke :: "std_function \<Rightarrow> machine \<Rightarrow> machine" where
  "myInvoke (Target c) s = count_call c s"

text \<open>The "Reference wrapped example" of \<^verbatim>\<open>main\<close>.\<close>

definition reference_wrapped_example :: "machine \<Rightarrow> machine" where
  "reference_wrapped_example s0 =
     (let s1 = print_tokens [Text ''\<newline>Reference wrapped example...\<newline>''] s0;
          (m, s2) = declare_int 0 s1;
          (count4, s3) = capture_by_value m s2;
          s4 = myInvoke (function_from_wrapper (Ref count4)) s3;
          s5 = myInvoke (function_from_wrapper (Ref count4)) s4;
          s6 = myInvoke (function_from_wrapper (Ref count4)) s5
      in s6)"

section \<open>Dangling captured variables (crashes ex04)\<close>






section \<open>Vectors (vectors ex01, ch16 ex03)\<close>

text \<open>
  \<^verbatim>\<open>std::vector<int>\<close> belongs to the C++ standard library, not to the examples.
  A vector is given by its elements, in order, and its reserved capacity. Its behaviour
  follows the GNU library the examples are built with, which is also what the comments
  of the memory layout example say: a vector built from an initializer list is at
  capacity, and an append that finds the vector at capacity reallocates to \<open>size +
  max size 1\<close> elements, the double for a vector that is not empty. (The library's upper
  limit on the size of a vector is out of reach and left out.)
\<close>

record vector =
  elems :: "cpp_int list"
  capacity :: nat

text \<open>\<^verbatim>\<open>v.size()\<close>\<close>

definition size_v :: "vector \<Rightarrow> nat" where
  "size_v v = length (elems v)"

text \<open>\<^verbatim>\<open>std::vector<int>{x1, ..., xn}\<close>\<close>

definition vector_init :: "cpp_int list \<Rightarrow> vector" where
  "vector_init xs = \<lparr>elems = xs, capacity = length xs\<rparr>"

text \<open>\<^verbatim>\<open>v.push_back(x)\<close>\<close>

definition push_back :: "cpp_int \<Rightarrow> vector \<Rightarrow> vector" where
  "push_back x v =
     (if size_v v = capacity v
      then \<lparr>elems = elems v @ [x], capacity = size_v v + max (size_v v) 1\<rparr>
      else v\<lparr>elems := elems v @ [x]\<rparr>)"

text \<open>
  \<^verbatim>\<open>main\<close> of the memory layout example, lines 6 to 28: the vector of eight primes, its
  size and capacity, the append of 21, the size and capacity again. The lines that print
  the addresses of the vector and of its elements are left out.
\<close>

definition vector_memory_layout_main :: "token list" where
  "vector_memory_layout_main =
     (let data = vector_init [2, 3, 5, 7, 11, 13, 17, 19];
          out1 = [Text ''Size of vector: '', Num (int (size_v data)), Text ''\<newline>'',
                  Text ''Capacity of vector: '', Num (int (capacity data)), Text ''\<newline>'',
                  Text ''\<newline>''];
          data = push_back 21 data;
          out2 = [Text ''After push_back...'', Text ''\<newline>'',
                  Text ''Size of vector after push_back: '', Num (int (size_v data)), Text ''\<newline>'',
                  Text ''Capacity of vector after push_back: '', Num (int (capacity data)),
                  Text ''\<newline>'', Text ''\<newline>'']
      in out1 @ out2)"

text \<open>
  \<^verbatim>\<open>v.at(n)\<close> checks the index against the size and throws \<^verbatim>\<open>std::out_of_range\<close>
  when it is not below it; the exception carries the index and the size, from which the
  library builds the text \<^verbatim>\<open>e.what()\<close> returns.
\<close>

datatype exception = OutOfRange nat nat

definition vector_at :: "vector \<Rightarrow> nat \<Rightarrow> exception + cpp_int" where
  "vector_at v n =
     (if size_v v \<le> n then Inl (OutOfRange n (size_v v)) else Inr (elems v ! n))"

text \<open>
  \<^verbatim>\<open>v[n]\<close> does not check the index and reports nothing. With the index below the size
  it is the element; otherwise the behaviour of the program is undefined, which is the
  result \<open>None\<close>: no value and no exception.
\<close>

definition subscript :: "vector \<Rightarrow> nat \<Rightarrow> cpp_int option" where
  "subscript v n = (if n < size_v v then Some (elems v ! n) else None)"

fun what :: "exception \<Rightarrow> token list" where
  "what (OutOfRange n k) =
     [Text ''vector::_M_range_check: __n (which is '', Num (int n),
      Text '') >= this->size() (which is '', Num (int k), Text '')'']"

text \<open>
  The part of \<^verbatim>\<open>main\<close> of the unsigned length example that uses \<^verbatim>\<open>at\<close>, lines 206
  to 218: the vector \<^verbatim>\<open>prime\<close> and what was written to \<^verbatim>\<open>std::cout\<close> and to
  \<^verbatim>\<open>std::cerr\<close>. A statement either ends normally in a new state or is left by an
  exception.
\<close>

record access_state =
  prime :: vector
  out :: "token list"
  err :: "token list"

text \<open>\<^verbatim>\<open>std::cout << prime.at(n) << '\n';\<close>\<close>

definition print_at :: "nat \<Rightarrow> access_state \<Rightarrow> exception + access_state" where
  "print_at n s =
     (case vector_at (prime s) n of
        Inl e \<Rightarrow> Inl e
      | Inr x \<Rightarrow> Inr (s\<lparr>out := out s @ [Num (sint x), Text ''\<newline>'']\<rparr>))"

text \<open>
  \<^verbatim>\<open>try { std::cout << prime.at(n) << '\n'; } catch (const std::out_of_range &e) {
  std::cerr << "Caught std::out_of_range_error: " << e.what() << '\n';
  std::cout << "Continuing...\n"; }\<close>
\<close>

definition try_print_at :: "nat \<Rightarrow> access_state \<Rightarrow> exception + access_state" where
  "try_print_at n s =
     (case print_at n s of
        Inl e \<Rightarrow>
          (let s1 = s\<lparr>err := err s @ [Text ''Caught std::out_of_range_error: ''] @ what e
                             @ [Text ''\<newline>'']\<rparr>
           in Inr (s1\<lparr>out := out s1 @ [Text ''Continuing...\<newline>'']\<rparr>))
      | Inr s' \<Rightarrow> Inr s')"

text \<open>
  Lines 206 to 218: \<^verbatim>\<open>prime.at(3)\<close> is printed, \<^verbatim>\<open>prime.at(9)\<close> is tried, and the
  next statement prints the heading of the next part.
\<close>

definition checked_access_example :: "access_state \<Rightarrow> exception + access_state" where
  "checked_access_example s =
     (case print_at 3 s of
        Inl e \<Rightarrow> Inl e
      | Inr s1 \<Rightarrow>
          (case try_print_at 9 s1 of
             Inl e \<Rightarrow> Inl e
           | Inr s2 \<Rightarrow> Inr (s2\<lparr>out := out s2 @ [Text ''\<newline>Vector access examples:\<newline>'']\<rparr>)))"

text \<open>\<^verbatim>\<open>std::vector prime{2, 3, 5, 7, 11};\<close> with nothing written yet.\<close>

definition prime_state :: access_state where
  "prime_state = \<lparr>prime = vector_init [2, 3, 5, 7, 11], out = [], err = []\<rparr>"

section \<open>Console input (Ex11FunctionReturnValues, Ex13FunctionParameters, the iostream example)\<close>

text \<open>
  \<^verbatim>\<open>std::cin\<close> belongs to the C++ standard library. It is given by the characters
  typed and not yet read, and by whether an extraction has failed. The extraction of an
  int follows the steps the iostream example lists in its comments (lines 107 to 119):
  \<^enum> a stream that is not in a good state attempts no extraction, and the variable keeps
    its value;
  \<^enum> leading whitespace is discarded;
  \<^enum> at this point the real stream waits for more input; here all the input is given in
    advance, so no characters left means the end of the input: the stream fails and the
    variable keeps its value;
  \<^enum> as many characters as fit an int are extracted: a sign and decimal digits. With no
    digit the extraction fails and, since C++11, the variable is set to 0; later
    extractions fail at once.

  C++11 also says what happens to a numeral too large for an int: the variable is set to
  the nearest int and the extraction fails.
\<close>

record istream =
  buffer :: string
  failed :: bool

definition is_space :: "char \<Rightarrow> bool" where
  "is_space c = (c \<in> set [CHR '' '', CHR 0x09, CHR 0x0A, CHR 0x0B, CHR 0x0C, CHR 0x0D])"

definition is_digit :: "char \<Rightarrow> bool" where
  "is_digit c = (c \<in> set ''0123456789'')"

definition digit_value :: "char \<Rightarrow> nat" where
  "digit_value c = of_char c - of_char CHR ''0''"

definition digits_value :: "string \<Rightarrow> nat" where
  "digits_value ds = foldl (\<lambda>acc c. 10 * acc + digit_value c) 0 ds"

definition skip_sign :: "string \<Rightarrow> bool \<times> string" where
  "skip_sign cs =
     (case cs of
        [] \<Rightarrow> (False, [])
      | c # rest \<Rightarrow>
          if c = CHR ''-'' then (True, rest)
          else if c = CHR ''+'' then (False, rest)
          else (False, cs))"

definition INT_MAX :: int where "INT_MAX = 2147483647"
definition INT_MIN :: int where "INT_MIN = - 2147483648"

text \<open>\<^verbatim>\<open>std::cin >> v\<close> on the stream alone: the new stream and the new value of \<open>v\<close>.\<close>

definition extract_int :: "istream \<Rightarrow> cpp_int \<Rightarrow> istream \<times> cpp_int" where
  "extract_int ins v =
     (if failed ins then (ins, v)
      else
        let cs = dropWhile is_space (buffer ins) in
        if cs = [] then (\<lparr>buffer = [], failed = True\<rparr>, v)
        else
          let (negative, cs1) = skip_sign cs;
              ds = takeWhile is_digit cs1;
              cs2 = dropWhile is_digit cs1
          in if ds = [] then (\<lparr>buffer = cs1, failed = True\<rparr>, 0)
             else
               let k = (if negative then - int (digits_value ds) else int (digits_value ds))
               in if INT_MAX < k then (\<lparr>buffer = cs2, failed = True\<rparr>, word_of_int INT_MAX)
                  else if k < INT_MIN then (\<lparr>buffer = cs2, failed = True\<rparr>, word_of_int INT_MIN)
                  else (\<lparr>buffer = cs2, failed = False\<rparr>, word_of_int k))"

text \<open>A program at the console: \<^verbatim>\<open>std::cin\<close> and what it has written to \<^verbatim>\<open>std::cout\<close>.\<close>

record console =
  cin :: istream
  shown :: "token list"

definition say :: "token list \<Rightarrow> console \<Rightarrow> console" where
  "say ts s = s\<lparr>shown := shown s @ ts\<rparr>"

definition cin_extract :: "cpp_int \<Rightarrow> console \<Rightarrow> cpp_int \<times> console" where
  "cin_extract v s = (let (ins, v') = extract_int (cin s) v in (v', s\<lparr>cin := ins\<rparr>))"

text \<open>
  \<^verbatim>\<open>int getValueFromUser() { std::cout << "Enter an integer: "; int input{};
  std::cin >> input; return input; }\<close> (the same in both examples): one prompt, one
  extraction, no test of the stream and no second attempt.
\<close>

definition getValueFromUser :: "console \<Rightarrow> cpp_int \<times> console" where
  "getValueFromUser s =
     (let s1 = say [Text ''Enter an integer: ''] s;
          input = 0
      in cin_extract input s1)"

text \<open>
  \<^verbatim>\<open>main\<close> of the return values example:
  \<^verbatim>\<open>int num{getValueFromUser()}; std::cout << num << " doubled is: " << num * 2 << '\n';\<close>
\<close>

definition return_values_main :: "console \<Rightarrow> console" where
  "return_values_main s =
     (let (num, s1) = getValueFromUser s
      in say [Num (sint num), Text '' doubled is: '', Num (sint (num * 2)), Text ''\<newline>''] s1)"

text \<open>
  \<^verbatim>\<open>void printDouble(int value)\<close> and the call \<^verbatim>\<open>printDouble(getValueFromUser())\<close>
  of the parameters example.
\<close>

definition printDouble :: "cpp_int \<Rightarrow> console \<Rightarrow> console" where
  "printDouble v s =
     say [Num (sint v), Text '' doubled is: '', Num (sint (v * 2)), Text ''\<newline>''] s"

definition printDouble_example :: "console \<Rightarrow> console" where
  "printDouble_example s =
     (let s1 = say [Text ''printDouble() example...\<newline>''] s;
          (v, s2) = getValueFromUser s1
      in printDouble v s2)"

text \<open>
  The \<^verbatim>\<open>std::cin\<close> part of \<^verbatim>\<open>main\<close> of the iostream example (lines 68 to 100): five
  extractions into variables that start at 0.
\<close>

definition iostream_example_main :: "console \<Rightarrow> console" where
  "iostream_example_main s0 =
     (let y = 0;
          s1 = say [Text ''Enter a number: ''] s0;
          (y, s2) = cin_extract y s1;
          s3 = say [Text ''You entered '', Num (sint y), Text ''\<newline>''] s2;
          s4 = say [Text ''Enter two numbers separated by a space: ''] s3;
          a = 0;
          b = 0;
          (a, s5) = cin_extract a s4;
          (b, s6) = cin_extract b s5;
          s7 = say [Text ''You entered '', Num (sint a), Text '' and '', Num (sint b),
                    Text ''\<newline>''] s6;
          s8 = say [Text ''Enter two numbers: ''] s7;
          i = 0;
          (i, s9) = cin_extract i s8;
          j = 0;
          (j, s10) = cin_extract j s9
      in say [Text ''You entered '', Num (sint i), Text '' and '', Num (sint j),
              Text ''\<newline>''] s10)"

text \<open>
  The input has no numeral for an int when, after the leading whitespace and an optional
  sign, it does not go on with a digit (this includes input that has ended). Otherwise
  the numeral at its front has a value, which may or may not be the value of an int.
\<close>

definition no_numeral :: "string \<Rightarrow> bool" where
  "no_numeral cs = (takeWhile is_digit (snd (skip_sign (dropWhile is_space cs))) = [])"

definition numeral_value :: "string \<Rightarrow> int" where
  "numeral_value cs =
     (let (negative, cs1) = skip_sign (dropWhile is_space cs);
          n = int (digits_value (takeWhile is_digit cs1))
      in if negative then - n else n)"

text \<open>A console on which the user types the given characters.\<close>

definition console_with :: "string \<Rightarrow> console" where
  "console_with cs = \<lparr>cin = \<lparr>buffer = cs, failed = False\<rparr>, shown = []\<rparr>"

section \<open>Stack overflow (crashes ex02)\<close>

text \<open>
  \<^verbatim>\<open>int g_counter{0};\<close> and what has been written to \<^verbatim>\<open>std::cout\<close>. A call of
  \<^verbatim>\<open>eat_stack\<close> either returns or runs out of stack, and then the process is
  terminated with the state it has reached.
\<close>

record eat_state =
  g_counter :: cpp_int
  printed :: "token list"

datatype outcome = Returned eat_state | StackOverflow eat_state

text \<open>
  \<^verbatim>\<open>void eat_stack() { std::cout << ++g_counter << std::endl;
  if (g_counter > 0) { eat_stack(); } std::cout << "hi" << std::endl; }\<close>
  The execution stack belongs to the platform: it has \<open>limit\<close> bytes, a frame of
  \<^verbatim>\<open>eat_stack\<close> takes \<open>frame\<close> bytes, the calls made by an output statement need \<open>io\<close>
  bytes on top of it, and \<open>used\<close> bytes are taken when the call is made. The stack can
  run out at the call itself or, after the increment, inside the first output statement;
  the second output statement runs where the first has run. The increment wraps around
  at the largest int, so the recursion ends after at most \<open>2 ^ 31\<close> calls whatever the
  stack: that is the termination argument.
\<close>

function eat_stack :: "nat \<Rightarrow> nat \<Rightarrow> nat \<Rightarrow> nat \<Rightarrow> eat_state \<Rightarrow> outcome" where
  "eat_stack limit frame io used s =
     (if limit < used + frame then StackOverflow s
      else
        let s1 = s\<lparr>g_counter := g_counter s + 1\<rparr>
        in if limit < used + frame + io then StackOverflow s1
           else
             let s2 = s1\<lparr>printed := printed s1 @ [Num (sint (g_counter s1)), Text ''\<newline>'']\<rparr>
             in if 0 < sint (g_counter s2)
                then (case eat_stack limit frame io (used + frame) s2 of
                        Returned s3 \<Rightarrow>
                          Returned (s3\<lparr>printed := printed s3 @ [Text ''hi'', Text ''\<newline>'']\<rparr>)
                      | StackOverflow s3 \<Rightarrow> StackOverflow s3)
                else Returned (s2\<lparr>printed := printed s2 @ [Text ''hi'', Text ''\<newline>'']\<rparr>))"
  by pat_completeness auto
termination
proof (relation "measure (\<lambda>(limit, frame, io, used, s). nat (2 ^ 31 - sint (g_counter s)))")
  show "wf (measure (\<lambda>(limit, frame, io, used, s). nat (2 ^ 31 - sint (g_counter s))))"
    by simp
next
  fix limit frame io used :: nat and s s1 s2 :: eat_state
  assume s1: "s1 = s\<lparr>g_counter := g_counter s + 1\<rparr>"
    and s2: "s2 = s1\<lparr>printed := printed s1 @ [Num (sint (g_counter s1)), Text ''\<newline>'']\<rparr>"
    and pos: "0 < sint (g_counter s2)"
  have g2: "g_counter s2 = g_counter s + 1" by (simp add: s1 s2)
  have lo: "- (2 ^ 31) \<le> sint (g_counter s)" using sint_ge [of "g_counter s"] by simp
  have hi: "sint (g_counter s) < 2 ^ 31" using sint_lt [of "g_counter s"] by simp
  have step: "sint (g_counter s + 1) = sint (g_counter s) + 1"
  proof (cases "sint (g_counter s) + 1 < 2 ^ 31")
    case True
    have "signed_take_bit 31 (sint (g_counter s) + 1) = sint (g_counter s) + 1"
      using lo True by (intro signed_take_bit_int_eq_self) simp_all
    then show ?thesis by (simp add: sint_word_add)
  next
    case False
    with hi have "sint (g_counter s) + 1 = 2 ^ 31" by simp
    then have "sint (g_counter s + 1) = signed_take_bit 31 (2 ^ 31 :: int)"
      by (simp add: sint_word_add)
    also have "\<dots> = - (2 ^ 31)" by (simp add: signed_take_bit_eq_take_bit_minus take_bit_eq_mod)
    finally show ?thesis using pos g2 by simp
  qed
  show "((limit, frame, io, used + frame, s2), (limit, frame, io, used, s))
      \<in> measure (\<lambda>(limit, frame, io, used, s). nat (2 ^ 31 - sint (g_counter s)))"
    using step g2 hi by simp
qed

declare eat_stack.simps [simp del]

text \<open>\<^verbatim>\<open>main\<close>: one call, with the counter at 0, nothing written and nothing of the stack used.\<close>

definition eat_stack_main :: "nat \<Rightarrow> nat \<Rightarrow> nat \<Rightarrow> outcome" where
  "eat_stack_main limit frame io = eat_stack limit frame io 0 \<lparr>g_counter = 0, printed = []\<rparr>"

text \<open>The lines that show the numbers \<open>k + 1\<close> to \<open>k + n\<close>.\<close>

fun counter_lines :: "int \<Rightarrow> nat \<Rightarrow> token list" where
  "counter_lines k 0 = []"
| "counter_lines k (Suc n) = [Num (k + 1), Text ''\<newline>''] @ counter_lines (k + 1) n"


section \<open>Properties\<close>

subsection \<open>Machine arithmetic\<close>

lemma uint_ushort_bound: "uint (n :: cpp_ushort) < 65536"
  using uint_bounded [of n] by simp

lemma sint_in_range: "int_range k \<Longrightarrow> signed_take_bit 31 k = k"
  unfolding int_range_def by (rule signed_take_bit_int_eq_self) simp_all

lemma sint_succ: "sint (i :: cpp_int) < 2147483647 \<Longrightarrow> sint (i + 1) = sint i + 1"
proof -
  have "- (2 ^ 31) \<le> sint i" using sint_ge [of i] by simp
  moreover assume "sint i < 2147483647"
  ultimately have "int_range (sint i + 1)" by (simp add: int_range_def)
  then have "signed_take_bit 31 (sint i + 1) = sint i + 1" by (rule sint_in_range)
  then show ?thesis by (simp add: sint_word_add)
qed

lemma sint_add_in_range:
  "int_range (sint x + sint y) \<Longrightarrow> sint (x + y :: cpp_int) = sint x + sint y"
  by (simp add: sint_word_add sint_in_range)

lemma sint_mult_in_range:
  "int_range (sint x * sint y) \<Longrightarrow> sint (x * y :: cpp_int) = sint x * sint y"
  by (simp add: sint_word_mult sint_in_range)

lemma uint_ucast_int: "uint (ucast (a :: cpp_int) :: cpp_ushort) = sint a mod 2 ^ 16"
proof -
  have "uint (ucast a :: cpp_ushort) = take_bit 16 (uint a)"
    by (simp add: unsigned_ucast_eq)
  also have "\<dots> = take_bit 16 (take_bit 32 (sint a))" by (simp add: uint_sint)
  also have "\<dots> = take_bit 16 (sint a)" by simp
  finally show ?thesis by (simp add: take_bit_eq_mod)
qed

lemma sint_ucast_ushort: "sint (ucast (n :: cpp_ushort) :: cpp_int) = uint n"
proof -
  have "signed_take_bit 31 (uint n) = uint n"
  proof (rule signed_take_bit_int_eq_self)
    show "- (2 ^ 31) \<le> uint n" by (rule order_trans [of _ 0]) simp_all
    show "uint n < 2 ^ 31" using uint_ushort_bound [of n] by simp
  qed
  then show ?thesis by (simp add: signed_ucast_eq)
qed

subsection \<open>Sum and product\<close>

text \<open>
  Claim C5. With \<^verbatim>\<open>x = 2\<close> and \<^verbatim>\<open>y = 3\<close> the sum demonstration prints 5 and the
  product demonstration prints 6: \<^verbatim>\<open>add(2,3)\<close> is 5 and \<^verbatim>\<open>multiply(2,3)\<close> is 6.
  For every pair of ints, \<^verbatim>\<open>add\<close> returns the int sum and \<^verbatim>\<open>multiply\<close> the int
  product; whenever the mathematical sum (product) of the two values is an int value, the
  value returned is that sum (product).
\<close>

theorem add_multiply_returns:
  fixes x y :: cpp_int
  shows "add 2 3 = 5 \<and> multiply 2 3 = 6
    \<and> math_examples =
        [Text ''Math examples...\<newline>'',
         Num 2, Text '' + '', Num 3, Text '' = '', Num 5, Text ''\<newline>'',
         Num 2, Text '' * '', Num 3, Text '' = '', Num 6, Text ''\<newline>'']
    \<and> add x y = x + y \<and> multiply x y = x * y
    \<and> (int_range (sint x + sint y) \<longrightarrow> sint (add x y) = sint x + sint y)
    \<and> (int_range (sint x * sint y) \<longrightarrow> sint (multiply x y) = sint x * sint y)"
proof -
  have "add 2 3 = 5" "multiply 2 3 = 6" by (simp_all add: add_def multiply_def)
  moreover have "math_examples =
        [Text ''Math examples...\<newline>'',
         Num 2, Text '' + '', Num 3, Text '' = '', Num 5, Text ''\<newline>'',
         Num 2, Text '' * '', Num 3, Text '' = '', Num 6, Text ''\<newline>'']"
    by (simp add: math_examples_def add_def multiply_def)
  moreover have "add x y = x + y" "multiply x y = x * y"
    by (simp_all add: add_def multiply_def)
  moreover have "int_range (sint x + sint y) \<longrightarrow> sint (add x y) = sint x + sint y"
    by (simp add: add_def sint_add_in_range)
  moreover have "int_range (sint x * sint y) \<longrightarrow> sint (multiply x y) = sint x * sint y"
    by (simp add: multiply_def sint_mult_in_range)
  ultimately show ?thesis by blast
qed

theorem add_multiply_returns_witness:
  "int_range (sint (2 :: cpp_int) + sint (3 :: cpp_int))
   \<and> int_range (sint (2 :: cpp_int) * sint (3 :: cpp_int))
   \<and> sint (add 2 3) = 5 \<and> sint (multiply 2 3) = 6"
proof -
  have r: "int_range (sint (2 :: cpp_int) + sint (3 :: cpp_int))"
    "int_range (sint (2 :: cpp_int) * sint (3 :: cpp_int))"
    by (simp_all add: int_range_def)
  with add_multiply_returns [of 2 3] show ?thesis by simp
qed

subsection \<open>A negative argument for an unsigned parameter\<close>

lemma doSomethingNTimes_loop_inv:
  "0 \<le> sint i \<Longrightarrow> sint i \<le> uint n \<Longrightarrow>
   doSomethingNTimes_loop n i counter = counter + (word_of_int (uint n) - i)"
proof (induction n i counter rule: doSomethingNTimes_loop.induct)
  case (1 n i counter)
  show ?case
  proof (cases "sint i < uint n")
    case True
    have "sint i < 2147483647" using True uint_ushort_bound [of n] by linarith
    then have s: "sint (i + 1) = sint i + 1" by (rule sint_succ)
    have p1: "0 \<le> sint (i + 1)" using s "1.prems"(1) by linarith
    have p2: "sint (i + 1) \<le> uint n" using s True by linarith
    have "doSomethingNTimes_loop n (i + 1) (counter + 1)
            = counter + 1 + (word_of_int (uint n) - (i + 1))"
      by (rule "1.IH" [OF True p1 p2])
    also have "\<dots> = counter + (word_of_int (uint n) - i)" by (simp only: algebra_simps)
    finally have r: "doSomethingNTimes_loop n (i + 1) (counter + 1)
            = counter + (word_of_int (uint n) - i)" .
    have "doSomethingNTimes_loop n i counter = doSomethingNTimes_loop n (i + 1) (counter + 1)"
      by (subst doSomethingNTimes_loop.simps) (simp only: True if_True)
    with r show ?thesis by (simp only:)
  next
    case False
    with "1.prems" have e: "sint i = uint n" by linarith
    have "word_of_int (sint i) = (word_of_int (uint n) :: cpp_int)" by (simp only: e)
    then have "i = word_of_int (uint n)" by simp
    then have z: "counter + (word_of_int (uint n) - i) = counter" by simp
    have "doSomethingNTimes_loop n i counter = counter"
      by (subst doSomethingNTimes_loop.simps) (simp only: False if_False)
    with z show ?thesis by (simp only:)
  qed
qed

lemma doSomethingNTimes_loop_count: "doSomethingNTimes_loop n 0 0 = ucast n"
proof -
  have "doSomethingNTimes_loop n 0 0 = 0 + (word_of_int (uint n) - 0)"
    by (rule doSomethingNTimes_loop_inv) simp_all
  also have "\<dots> = word_of_int (uint n)" by simp
  finally show ?thesis by (simp only: ucast_eq)
qed

lemma doSomethingNTimes_reports:
  "doSomethingNTimes n = [Text ''This code ran '', Num (uint n), Text '' times!\<newline>'']"
  by (simp add: doSomethingNTimes_def doSomethingNTimes_loop_count sint_ucast_ushort)

text \<open>
  Claim C10. The call \<^verbatim>\<open>doSomethingNTimes(-1)\<close> converts \<^verbatim>\<open>-1\<close> to
  \<^verbatim>\<open>unsigned short\<close> modulo \<open>2 ^ 16\<close>, that is to 65535; the loop body runs 65535
  times and the function reports 65535. For every int argument \<open>a\<close> the body runs
  \<open>a mod 2 ^ 16\<close> times and that count is reported.
\<close>

theorem doSomethingNTimes_wraps:
  fixes a :: cpp_int
  shows "(ucast (- 1 :: cpp_int) :: cpp_ushort) = 65535
    \<and> sint (doSomethingNTimes_loop (ucast (- 1 :: cpp_int)) 0 0) = 65535
    \<and> call_doSomethingNTimes (- 1) =
        [Text ''This code ran '', Num 65535, Text '' times!\<newline>'']
    \<and> uint (ucast a :: cpp_ushort) = sint a mod 2 ^ 16
    \<and> sint (doSomethingNTimes_loop (ucast a) 0 0) = sint a mod 2 ^ 16
    \<and> call_doSomethingNTimes a =
        [Text ''This code ran '', Num (sint a mod 2 ^ 16), Text '' times!\<newline>'']"
proof -
  have g1: "uint (ucast a :: cpp_ushort) = sint a mod 2 ^ 16" by (rule uint_ucast_int)
  have g2: "sint (doSomethingNTimes_loop (ucast a) 0 0) = sint a mod 2 ^ 16"
    by (simp only: doSomethingNTimes_loop_count sint_ucast_ushort uint_ucast_int)
  have g3: "call_doSomethingNTimes a =
        [Text ''This code ran '', Num (sint a mod 2 ^ 16), Text '' times!\<newline>'']"
    by (simp only: call_doSomethingNTimes_def doSomethingNTimes_reports uint_ucast_int)
  have m: "sint (- 1 :: cpp_int) mod 2 ^ 16 = 65535" by simp
  have "uint (ucast (- 1 :: cpp_int) :: cpp_ushort) = 65535"
    by (simp only: uint_ucast_int m)
  then have "uint (ucast (- 1 :: cpp_int) :: cpp_ushort) = uint (65535 :: cpp_ushort)"
    by simp
  then have c1: "(ucast (- 1 :: cpp_int) :: cpp_ushort) = 65535"
    by (simp only: word_uint_eq_iff)
  have c2: "sint (doSomethingNTimes_loop (ucast (- 1 :: cpp_int)) 0 0) = 65535"
    by (simp only: doSomethingNTimes_loop_count sint_ucast_ushort uint_ucast_int m)
  have c3: "call_doSomethingNTimes (- 1) =
        [Text ''This code ran '', Num 65535, Text '' times!\<newline>'']"
    by (simp only: call_doSomethingNTimes_def doSomethingNTimes_reports uint_ucast_int m)
  from c1 c2 c3 g1 g2 g3 show ?thesis by blast
qed

subsection \<open>Closures\<close>

lemmas machine_ops = declare_int_def assign_def print_tokens_def read_token_def delete_int_def
  capture_by_value_def copy_closure_def Let_def

lemma basic_lambda_copy_output:
  "cout (basic_lambda_copy_example s0) = cout s0 @
     [Text ''Basic lambda copy example...\<newline>'',
      Num 1, Text ''\<newline>'', Num 2, Text ''\<newline>'', Num 2, Text ''\<newline>'']"
  by (simp add: basic_lambda_copy_example_def count_call_def machine_ops)

lemma mem_count_call: "mem (count_call c s) x = (if x = c then mem s c + 1 else mem s x)"
  by (simp add: count_call_def assign_def print_tokens_def Let_def)

lemma live_count_call: "live (count_call c s) = live s"
  by (simp add: count_call_def assign_def print_tokens_def Let_def)

lemma cout_count_call:
  "c \<in> live s \<Longrightarrow> cout (count_call c s) = cout s @ [Num (sint (mem s c + 1)), Text ''\<newline>'']"
  by (simp add: count_call_def machine_ops)

lemma mem_fold_count_call:
  "mem (fold count_call sched s) x = mem s x + of_nat (count_list sched x)"
  by (induction sched arbitrary: s) (simp_all add: mem_count_call)

lemma copy_closure_fresh:
  "wf_machine s \<Longrightarrow> c \<in> live s \<Longrightarrow> fst (copy_closure c s) \<noteq> c"
  by (auto simp: copy_closure_def declare_int_def wf_machine_def)

lemma copy_closure_mem:
  "wf_machine s \<Longrightarrow> c \<in> live s \<Longrightarrow>
   mem (snd (copy_closure c s)) (fst (copy_closure c s)) = mem s c
   \<and> mem (snd (copy_closure c s)) c = mem s c"
  by (auto simp: copy_closure_def declare_int_def wf_machine_def)

text \<open>
  Claim C3. A closure that captured an int counter by value increments and prints its own
  counter at each call. The demonstration calls \<^verbatim>\<open>count\<close> once, copies it to
  \<^verbatim>\<open>otherCount\<close>, calls both, and prints 1, 2, 2. In general, when a live closure object
  \<open>c\<close> is copied, the copy \<open>c'\<close> is a different object whose counter starts at the value
  the counter of \<open>c\<close> has at copy time, and after any sequence \<open>sched\<close> of calls each
  counter has grown by the number of calls made on its own object.
\<close>

theorem copied_closure_counts_independently:
  assumes "wf_machine s" and "c \<in> live s"
  shows "cout (basic_lambda_copy_example s0) = cout s0 @
           [Text ''Basic lambda copy example...\<newline>'',
            Num 1, Text ''\<newline>'', Num 2, Text ''\<newline>'', Num 2, Text ''\<newline>'']
    \<and> (case copy_closure c s of (c', s') \<Rightarrow>
          c' \<noteq> c \<and> mem s' c' = mem s c \<and> mem s' c = mem s c
        \<and> mem (fold count_call sched s') c = mem s c + of_nat (count_list sched c)
        \<and> mem (fold count_call sched s') c' = mem s c + of_nat (count_list sched c'))"
proof -
  obtain c' s' where cp: "copy_closure c s = (c', s')" by (cases "copy_closure c s")
  have "c' \<noteq> c" using copy_closure_fresh [OF assms] cp by simp
  moreover have m: "mem s' c' = mem s c \<and> mem s' c = mem s c"
    using copy_closure_mem [OF assms] cp by simp
  moreover have "mem (fold count_call sched s') c = mem s c + of_nat (count_list sched c)"
    using m by (simp add: mem_fold_count_call)
  moreover have "mem (fold count_call sched s') c' = mem s c + of_nat (count_list sched c')"
    using m by (simp add: mem_fold_count_call)
  ultimately show ?thesis using cp basic_lambda_copy_output [of s0] by simp
qed

theorem copied_closure_counts_independently_witness:
  "live (snd (declare_int 1 empty_machine)) = {0}
   \<and> next_addr (snd (declare_int 1 empty_machine)) = 1
   \<and> (case copy_closure 0 (snd (declare_int 1 empty_machine)) of (c', s') \<Rightarrow>
         c' = 1 \<and> mem s' c' = 1
       \<and> mem (fold count_call [0, c'] s') 0 = 2 \<and> mem (fold count_call [0, c'] s') c' = 2)"
proof -
  have h1: "wf_machine (snd (declare_int 1 empty_machine))"
    by (simp add: wf_machine_def declare_int_def empty_machine_def)
  have h2: "0 \<in> live (snd (declare_int 1 empty_machine))"
    by (simp add: declare_int_def empty_machine_def)
  from copied_closure_counts_independently [OF h1 h2, of _ "[0, 1]"]
  show ?thesis
    by (simp add: copy_closure_def declare_int_def empty_machine_def)
qed

lemma mem_throwShell_call:
  "mem (throwShell_call c s) x = (if x = c then mem s c - 1 else mem s x)"
  by (simp add: throwShell_call_def assign_def print_tokens_def Let_def)

lemma live_throwShell_call: "live (throwShell_call c s) = live s"
  by (simp add: throwShell_call_def assign_def print_tokens_def Let_def)

lemma mem_funpow_throwShell_other:
  "x \<noteq> c \<Longrightarrow> mem ((throwShell_call c ^^ n) s) x = mem s x"
  by (induction n) (simp_all add: mem_throwShell_call)

lemma mem_funpow_throwShell_self:
  "mem ((throwShell_call c ^^ n) s) c = mem s c - of_nat n"
  by (induction n) (simp_all add: mem_throwShell_call algebra_simps)

lemma live_funpow_throwShell: "live ((throwShell_call c ^^ n) s) = live s"
  by (induction n) (simp_all add: live_throwShell_call)

lemma mutable_captures_output:
  "cout (mutable_captures_example s0) = cout s0 @
     [Text ''Threw shell! '', Num 2, Text '' shells left.\<newline>'',
      Text ''Threw shell! '', Num 1, Text '' shells left.\<newline>'',
      Text ''\<newline>This will be wrong...\<newline>'',
      Num 3, Text '' shells left.\<newline>\<newline>'']"
  by (simp add: mutable_captures_example_def mutable_captures_setup_def throwShell_call_def
      machine_ops)

text \<open>
  Claim C9. Calling the mutable lambda \<^verbatim>\<open>throwShell\<close>, which captured \<^verbatim>\<open>shells\<close>
  by value and decrements its copy, never changes the outer variable: after any number
  \<open>n\<close> of calls the outer \<^verbatim>\<open>shells\<close> is still 3 (and prints as 3), while the copy
  inside the closure has gone down by \<open>n\<close>.
\<close>

theorem throwShell_keeps_outer_shells:
  "(case mutable_captures_setup s0 of (shells, throwShell, s) \<Rightarrow>
      shells \<noteq> throwShell
    \<and> mem s shells = 3
    \<and> mem ((throwShell_call throwShell ^^ n) s) shells = 3
    \<and> read_token shells ((throwShell_call throwShell ^^ n) s) = Num 3
    \<and> mem ((throwShell_call throwShell ^^ n) s) throwShell = 3 - of_nat n)
   \<and> cout (mutable_captures_example s0) = cout s0 @
     [Text ''Threw shell! '', Num 2, Text '' shells left.\<newline>'',
      Text ''Threw shell! '', Num 1, Text '' shells left.\<newline>'',
      Text ''\<newline>This will be wrong...\<newline>'',
      Num 3, Text '' shells left.\<newline>\<newline>'']"
  by (simp add: mutable_captures_output mutable_captures_setup_def machine_ops
      mem_funpow_throwShell_other mem_funpow_throwShell_self live_funpow_throwShell)

lemma mem_throwBanana_call:
  "mem (throwBanana_call c s) x = (if x = bananas_ref c then mem s x - 1 else mem s x)"
  by (simp add: throwBanana_call_def assign_def print_tokens_def Let_def)

lemma mem_fold_throwBanana:
  "\<forall>c' \<in> set cs. bananas_ref c' = a \<Longrightarrow>
   mem (fold throwBanana_call cs s) a = mem s a - of_nat (length cs)"
  by (induction cs arbitrary: s) (simp_all add: mem_throwBanana_call)

lemma capture_by_reference_output:
  "cout (capture_by_reference_example s0) = cout s0 @
     [Text ''Threw banana! '', Text '' bananas left.\<newline>'',
      Text ''Threw banana! '', Text '' bananas left.\<newline>'',
      Text ''\<newline>This will be right...\<newline>'', Num 1, Text '' left.\<newline>'']"
  by (simp add: capture_by_reference_example_def capture_by_reference_def throwBanana_call_def
      machine_ops)

lemma reference_wrapped_output:
  "cout (reference_wrapped_example s0) = cout s0 @
     [Text ''\<newline>Reference wrapped example...\<newline>'',
      Num 1, Text ''\<newline>'', Num 2, Text ''\<newline>'', Num 3, Text ''\<newline>'']"
  by (simp add: reference_wrapped_example_def count_call_def machine_ops)

lemma mem_fold_myInvoke_wrapped:
  "mem (fold myInvoke (replicate n (function_from_wrapper (Ref a))) s) a = mem s a + of_nat n"
  by (induction n arbitrary: s) (simp_all add: mem_count_call)

text \<open>
  Claim C4. A closure capturing a counter by reference, and each of its copies, refers to
  the one variable: calling any of them decrements that variable, so after the calls
  \<open>cs\<close>, all of them copies of \<open>c\<close>, the variable has gone down by the number of calls.
  Two calls of \<^verbatim>\<open>throwBanana\<close> leave \<^verbatim>\<open>bananas\<close> at 1. A by-value closure passed
  through \<^verbatim>\<open>std::ref\<close> is called in place: \<open>n\<close> wrapped calls raise the counter of the
  one object by \<open>n\<close>, and the three wrapped calls of \<^verbatim>\<open>count4\<close> print 1, 2, 3.
\<close>

theorem reference_capture_shares_counter:
  assumes "\<forall>c' \<in> set cs. bananas_ref c' = bananas_ref c"
  shows "bananas_ref (copy_throwBanana c) = bananas_ref c
    \<and> throwBanana_call (copy_throwBanana c) s = throwBanana_call c s
    \<and> mem (fold throwBanana_call cs s) (bananas_ref c) = mem s (bananas_ref c) - of_nat (length cs)
    \<and> cout (capture_by_reference_example s0) = cout s0 @
         [Text ''Threw banana! '', Text '' bananas left.\<newline>'',
          Text ''Threw banana! '', Text '' bananas left.\<newline>'',
          Text ''\<newline>This will be right...\<newline>'', Num 1, Text '' left.\<newline>'']
    \<and> myInvoke (function_from_wrapper (Ref a)) s = count_call a s
    \<and> mem (fold myInvoke (replicate n (function_from_wrapper (Ref a))) s) a = mem s a + of_nat n
    \<and> cout (reference_wrapped_example s0) = cout s0 @
         [Text ''\<newline>Reference wrapped example...\<newline>'',
          Num 1, Text ''\<newline>'', Num 2, Text ''\<newline>'', Num 3, Text ''\<newline>'']"
proof -
  have "throwBanana_call (copy_throwBanana c) s = throwBanana_call c s"
    by (simp add: copy_throwBanana_def throwBanana_call_def)
  moreover have "bananas_ref (copy_throwBanana c) = bananas_ref c"
    by (simp add: copy_throwBanana_def)
  moreover have "mem (fold throwBanana_call cs s) (bananas_ref c)
      = mem s (bananas_ref c) - of_nat (length cs)"
    using assms by (rule mem_fold_throwBanana)
  moreover have "myInvoke (function_from_wrapper (Ref a)) s = count_call a s" by simp
  ultimately show ?thesis
    using capture_by_reference_output [of s0] reference_wrapped_output [of s0]
      mem_fold_myInvoke_wrapped [of n a s]
    by blast
qed

theorem reference_capture_shares_counter_witness:
  "bananas_ref (capture_by_reference 0) = 0
   \<and> bananas_ref (copy_throwBanana (capture_by_reference 0)) = 0
   \<and> mem (fold throwBanana_call
        [capture_by_reference 0, copy_throwBanana (capture_by_reference 0)]
        (snd (declare_int 3 empty_machine))) 0 = 1"
proof -
  have h: "\<forall>c' \<in> set [capture_by_reference 0, copy_throwBanana (capture_by_reference 0)].
       bananas_ref c' = bananas_ref (capture_by_reference 0)"
    by (simp add: capture_by_reference_def copy_throwBanana_def)
  from reference_capture_shares_counter [OF h, of "snd (declare_int 3 empty_machine)"]
  show ?thesis
    by (simp add: capture_by_reference_def copy_throwBanana_def declare_int_def
        empty_machine_def)
qed




lemma concat_replicate_snoc: "concat (replicate k l) @ l = l @ concat (replicate k l)"
  by (induction k) simp_all





subsection \<open>Vector growth\<close>

lemma size_vector_init: "size_v (vector_init xs) = length xs"
  by (simp add: size_v_def vector_init_def)

lemma size_push_back: "size_v (push_back x v) = size_v v + 1"
  by (simp add: size_v_def push_back_def)

lemma capacity_push_back_ge:
  "size_v v \<le> capacity v \<Longrightarrow> size_v (push_back x v) \<le> capacity (push_back x v)"
  by (auto simp: size_v_def push_back_def)

lemma capacity_push_back_full:
  "size_v v = capacity v \<Longrightarrow> 0 < capacity v \<Longrightarrow> capacity (push_back x v) = 2 * capacity v"
  by (auto simp: size_v_def push_back_def)

lemma capacity_push_back_empty:
  "size_v v = capacity v \<Longrightarrow> capacity v = 0 \<Longrightarrow> capacity (push_back x v) = 1"
  by (auto simp: size_v_def push_back_def)

lemma capacity_push_back_spare:
  "size_v v < capacity v \<Longrightarrow> capacity (push_back x v) = capacity v"
  by (auto simp: size_v_def push_back_def)

lemma vector_memory_layout_output:
  "vector_memory_layout_main =
     [Text ''Size of vector: '', Num 8, Text ''\<newline>'',
      Text ''Capacity of vector: '', Num 8, Text ''\<newline>'', Text ''\<newline>'',
      Text ''After push_back...'', Text ''\<newline>'',
      Text ''Size of vector after push_back: '', Num 9, Text ''\<newline>'',
      Text ''Capacity of vector after push_back: '', Num 16, Text ''\<newline>'',
      Text ''\<newline>'']"
  by (simp add: vector_memory_layout_main_def vector_init_def push_back_def size_v_def)

text \<open>
  Claim C1, as amended. A vector built from an initializer list has as many elements as
  the list. An append adds exactly one element, and the capacity is not below the new
  size. When the vector was at capacity and not empty, the new capacity is the double of
  the old one; an empty vector at capacity 0 gets capacity 1. From \<^verbatim>\<open>{2, 3, 5, 7}\<close>,
  appending 21 gives size 5 and capacity 8, from capacity 4; the example itself starts
  from eight elements and reports sizes 8 and 9 and capacities 8 and 16.
\<close>

theorem push_back_grows:
  "size_v (vector_init xs) = length xs
   \<and> capacity (vector_init xs) = length xs
   \<and> size_v (push_back x v) = size_v v + 1
   \<and> (size_v v \<le> capacity v \<longrightarrow> size_v (push_back x v) \<le> capacity (push_back x v))
   \<and> (size_v v = capacity v \<and> 0 < capacity v \<longrightarrow>
        capacity (push_back x v) = 2 * capacity v)
   \<and> (size_v v = capacity v \<and> capacity v = 0 \<longrightarrow> capacity (push_back x v) = 1)
   \<and> size_v (push_back 21 (vector_init [2, 3, 5, 7])) = 5
   \<and> capacity (vector_init [2, 3, 5, 7]) = 4
   \<and> capacity (push_back 21 (vector_init [2, 3, 5, 7])) = 8
   \<and> vector_memory_layout_main =
     [Text ''Size of vector: '', Num 8, Text ''\<newline>'',
      Text ''Capacity of vector: '', Num 8, Text ''\<newline>'', Text ''\<newline>'',
      Text ''After push_back...'', Text ''\<newline>'',
      Text ''Size of vector after push_back: '', Num 9, Text ''\<newline>'',
      Text ''Capacity of vector after push_back: '', Num 16, Text ''\<newline>'',
      Text ''\<newline>'']"
proof -
  have "size_v (push_back 21 (vector_init [2, 3, 5, 7])) = 5"
    "capacity (vector_init [2, 3, 5, 7]) = 4"
    "capacity (push_back 21 (vector_init [2, 3, 5, 7])) = 8"
    by (simp_all add: vector_init_def push_back_def size_v_def)
  moreover have "capacity (vector_init xs) = length xs" by (simp add: vector_init_def)
  ultimately show ?thesis
    using size_vector_init [of xs] size_push_back [of x v] capacity_push_back_ge [of v x]
      capacity_push_back_full [of v x] capacity_push_back_empty [of v x]
      vector_memory_layout_output
    by blast
qed

theorem push_back_grows_witness:
  "size_v (vector_init [2, 3, 5, 7]) \<le> capacity (vector_init [2, 3, 5, 7])
   \<and> size_v (vector_init [2, 3, 5, 7]) = capacity (vector_init [2, 3, 5, 7])
   \<and> 0 < capacity (vector_init [2, 3, 5, 7])
   \<and> size_v (push_back 21 (vector_init [2, 3, 5, 7]))
        \<le> capacity (push_back 21 (vector_init [2, 3, 5, 7]))
   \<and> capacity (push_back 21 (vector_init [2, 3, 5, 7]))
        = 2 * capacity (vector_init [2, 3, 5, 7])
   \<and> size_v (vector_init []) = capacity (vector_init [])
   \<and> capacity (vector_init []) = 0
   \<and> capacity (push_back 21 (vector_init [])) = 1"
proof -
  have h: "size_v (vector_init [2, 3, 5, 7]) \<le> capacity (vector_init [2, 3, 5, 7])"
    "size_v (vector_init [2, 3, 5, 7]) = capacity (vector_init [2, 3, 5, 7])"
    "0 < capacity (vector_init [2, 3, 5, 7])"
    by (simp_all add: vector_init_def size_v_def)
  have e: "size_v (vector_init []) = capacity (vector_init [])"
    "capacity (vector_init []) = 0"
    by (simp_all add: vector_init_def size_v_def)
  from push_back_grows [of "[2, 3, 5, 7]" 21 "vector_init [2, 3, 5, 7]"]
    push_back_grows [of "[]" 21 "vector_init []"] h e
  show ?thesis by blast
qed

text \<open>
  The claim as first stated, that an append to a vector at capacity always doubles the
  capacity, fails for the empty vector: it is at capacity 0, and the append gives
  capacity 1, which is not the double of 0.
\<close>

theorem push_back_empty_counterexample:
  "size_v (vector_init []) = capacity (vector_init [])
   \<and> capacity (vector_init []) = 0
   \<and> capacity (push_back 21 (vector_init [])) = 1
   \<and> capacity (push_back 21 (vector_init [])) \<noteq> 2 * capacity (vector_init [])"
  by (simp add: vector_init_def push_back_def size_v_def)

subsection \<open>Checked and unchecked access\<close>

lemma checked_access_example_output:
  "checked_access_example prime_state =
     Inr \<lparr>prime = vector_init [2, 3, 5, 7, 11],
          out = [Num 7, Text ''\<newline>'', Text ''Continuing...\<newline>'',
                 Text ''\<newline>Vector access examples:\<newline>''],
          err = [Text ''Caught std::out_of_range_error: '',
                 Text ''vector::_M_range_check: __n (which is '', Num 9,
                 Text '') >= this->size() (which is '', Num 5, Text '')'',
                 Text ''\<newline>'']\<rparr>"
  by (simp add: checked_access_example_def prime_state_def try_print_at_def print_at_def
      vector_at_def vector_init_def size_v_def)

text \<open>
  Claim C2. For every vector and every index that is not below its size, \<^verbatim>\<open>at\<close>
  raises the out-of-range condition. The handler at the call site logs it, the statement
  ends normally, so execution continues, and the vector is unchanged. The unchecked
  subscript at the same index raises nothing. In the example, \<^verbatim>\<open>prime.at(9)\<close> on the
  five primes is caught and logged and the program goes on to the next heading.
\<close>

theorem checked_access_raises:
  assumes "size_v (prime s) \<le> i"
  shows "vector_at (prime s) i = Inl (OutOfRange i (size_v (prime s)))
    \<and> subscript (prime s) i = None
    \<and> print_at i s = Inl (OutOfRange i (size_v (prime s)))
    \<and> try_print_at i s =
        Inr \<lparr>prime = prime s,
             out = out s @ [Text ''Continuing...\<newline>''],
             err = err s @ [Text ''Caught std::out_of_range_error: '']
                    @ what (OutOfRange i (size_v (prime s))) @ [Text ''\<newline>'']\<rparr>
    \<and> size_v (vector_init [2, 3, 5, 7, 11]) = 5
    \<and> vector_at (vector_init [2, 3, 5, 7, 11]) 9 = Inl (OutOfRange 9 5)
    \<and> checked_access_example prime_state =
       Inr \<lparr>prime = vector_init [2, 3, 5, 7, 11],
            out = [Num 7, Text ''\<newline>'', Text ''Continuing...\<newline>'',
                   Text ''\<newline>Vector access examples:\<newline>''],
            err = [Text ''Caught std::out_of_range_error: '',
                   Text ''vector::_M_range_check: __n (which is '', Num 9,
                   Text '') >= this->size() (which is '', Num 5, Text '')'',
                   Text ''\<newline>'']\<rparr>"
proof -
  have a: "vector_at (prime s) i = Inl (OutOfRange i (size_v (prime s)))"
    using assms by (simp add: vector_at_def)
  have b: "subscript (prime s) i = None" using assms by (simp add: subscript_def)
  have c: "print_at i s = Inl (OutOfRange i (size_v (prime s)))"
    using a by (simp add: print_at_def)
  have d: "try_print_at i s =
        Inr \<lparr>prime = prime s,
             out = out s @ [Text ''Continuing...\<newline>''],
             err = err s @ [Text ''Caught std::out_of_range_error: '']
                    @ what (OutOfRange i (size_v (prime s))) @ [Text ''\<newline>'']\<rparr>"
    using c by (simp add: try_print_at_def)
  have e: "size_v (vector_init [2, 3, 5, 7, 11]) = 5"
    "vector_at (vector_init [2, 3, 5, 7, 11]) 9 = Inl (OutOfRange 9 5)"
    by (simp_all add: vector_at_def vector_init_def size_v_def)
  from a b c d e checked_access_example_output show ?thesis by blast
qed

theorem checked_access_raises_witness:
  "size_v (prime prime_state) \<le> 5
   \<and> vector_at (prime prime_state) 5 = Inl (OutOfRange 5 5)
   \<and> subscript (prime prime_state) 5 = None"
proof -
  have h: "size_v (prime prime_state) \<le> 5"
    by (simp add: prime_state_def vector_init_def size_v_def)
  have k: "size_v (prime prime_state) = 5"
    by (simp add: prime_state_def vector_init_def size_v_def)
  from checked_access_raises [OF h] show ?thesis using h k by simp
qed

subsection \<open>Failed extraction from the console\<close>

lemma extract_int_failed: "failed ins \<Longrightarrow> extract_int ins v = (ins, v)"
  by (simp add: extract_int_def)

lemma extract_int_no_numeral:
  assumes "failed ins \<or> no_numeral (buffer ins)"
  shows "snd (extract_int ins 0) = 0 \<and> failed (fst (extract_int ins 0))"
proof (cases "failed ins")
  case True
  then show ?thesis by (simp add: extract_int_failed)
next
  case False
  with assms have m: "takeWhile is_digit (snd (skip_sign (dropWhile is_space (buffer ins)))) = []"
    by (simp add: no_numeral_def)
  show ?thesis
  proof (cases "dropWhile is_space (buffer ins) = []")
    case True
    then show ?thesis using False by (simp add: extract_int_def)
  next
    case nonempty: False
    obtain neg cs1 where sk: "skip_sign (dropWhile is_space (buffer ins)) = (neg, cs1)"
      by (cases "skip_sign (dropWhile is_space (buffer ins))")
    with m have "takeWhile is_digit cs1 = []" by simp
    then show ?thesis using False nonempty sk by (simp add: extract_int_def Let_def)
  qed
qed

lemma cin_extract_no_numeral:
  assumes "failed (cin s) \<or> no_numeral (buffer (cin s))"
  shows "fst (cin_extract 0 s) = 0 \<and> failed (cin (snd (cin_extract 0 s)))
    \<and> shown (snd (cin_extract 0 s)) = shown s"
  using extract_int_no_numeral [OF assms]
  by (simp add: cin_extract_def split_beta)

lemma cin_extract_failed:
  "failed (cin s) \<Longrightarrow> cin_extract v s = (v, s)"
  by (simp add: cin_extract_def extract_int_failed)

lemma cin_say: "cin (say ts s) = cin s"
  by (simp add: say_def)

lemma shown_say: "shown (say ts s) = shown s @ ts"
  by (simp add: say_def)

lemma getValueFromUser_no_numeral:
  assumes "failed (cin s) \<or> no_numeral (buffer (cin s))"
  shows "fst (getValueFromUser s) = 0
    \<and> failed (cin (snd (getValueFromUser s)))
    \<and> shown (snd (getValueFromUser s)) = shown s @ [Text ''Enter an integer: '']"
proof -
  have "failed (cin (say [Text ''Enter an integer: ''] s))
      \<or> no_numeral (buffer (cin (say [Text ''Enter an integer: ''] s)))"
    using assms by (simp add: cin_say)
  from cin_extract_no_numeral [OF this] show ?thesis
    by (simp add: getValueFromUser_def shown_say)
qed

lemma no_numeral_outputs:
  assumes "failed (cin s) \<or> no_numeral (buffer (cin s))"
  shows "fst (getValueFromUser s) = 0
    \<and> failed (cin (snd (getValueFromUser s)))
    \<and> shown (snd (getValueFromUser s)) = shown s @ [Text ''Enter an integer: '']
    \<and> shown (return_values_main s) = shown s @
         [Text ''Enter an integer: '', Num 0, Text '' doubled is: '', Num 0, Text ''\<newline>'']
    \<and> shown (printDouble_example s) = shown s @
         [Text ''printDouble() example...\<newline>'', Text ''Enter an integer: '',
          Num 0, Text '' doubled is: '', Num 0, Text ''\<newline>'']
    \<and> shown (iostream_example_main s) = shown s @
         [Text ''Enter a number: '', Text ''You entered '', Num 0, Text ''\<newline>'',
          Text ''Enter two numbers separated by a space: '',
          Text ''You entered '', Num 0, Text '' and '', Num 0, Text ''\<newline>'',
          Text ''Enter two numbers: '',
          Text ''You entered '', Num 0, Text '' and '', Num 0, Text ''\<newline>'']"
proof -
  note g = getValueFromUser_no_numeral [OF assms]
  have r: "shown (return_values_main s) = shown s @
         [Text ''Enter an integer: '', Num 0, Text '' doubled is: '', Num 0, Text ''\<newline>'']"
    using g by (simp add: return_values_main_def split_beta shown_say)
  have a': "failed (cin (say [Text ''printDouble() example...\<newline>''] s))
      \<or> no_numeral (buffer (cin (say [Text ''printDouble() example...\<newline>''] s)))"
    using assms by (simp add: cin_say)
  have p: "shown (printDouble_example s) = shown s @
         [Text ''printDouble() example...\<newline>'', Text ''Enter an integer: '',
          Num 0, Text '' doubled is: '', Num 0, Text ''\<newline>'']"
    using getValueFromUser_no_numeral [OF a']
    by (simp add: printDouble_example_def printDouble_def split_beta shown_say)
  define s1 where "s1 = say [Text ''Enter a number: ''] s"
  have a1: "failed (cin s1) \<or> no_numeral (buffer (cin s1))"
    using assms by (simp add: s1_def cin_say)
  note e1 = cin_extract_no_numeral [OF a1]
  define s2 where "s2 = snd (cin_extract 0 s1)"
  have f2: "failed (cin s2)" using e1 by (simp add: s2_def)
  have sh2: "shown s2 = shown s @ [Text ''Enter a number: '']"
    using e1 by (simp add: s2_def s1_def shown_say)
  have ce: "cin_extract 0 s1 = (0, s2)"
    using e1 by (simp add: s2_def prod_eq_iff)
  have i: "shown (iostream_example_main s) = shown s @
         [Text ''Enter a number: '', Text ''You entered '', Num 0, Text ''\<newline>'',
          Text ''Enter two numbers separated by a space: '',
          Text ''You entered '', Num 0, Text '' and '', Num 0, Text ''\<newline>'',
          Text ''Enter two numbers: '',
          Text ''You entered '', Num 0, Text '' and '', Num 0, Text ''\<newline>'']"
    by (simp add: iostream_example_main_def Let_def s1_def [symmetric] ce
        cin_extract_failed f2 cin_say shown_say sh2)
  from g r p i show ?thesis by blast
qed

lemma extract_int_too_large:
  assumes "\<not> failed ins" and "\<not> no_numeral (buffer ins)"
    and "INT_MAX < numeral_value (buffer ins)"
  shows "snd (extract_int ins v) = 2147483647 \<and> failed (fst (extract_int ins v))"
proof -
  obtain neg cs1 where sk: "skip_sign (dropWhile is_space (buffer ins)) = (neg, cs1)"
    by (cases "skip_sign (dropWhile is_space (buffer ins))")
  have ds: "takeWhile is_digit cs1 \<noteq> []" using assms(2) sk by (simp add: no_numeral_def)
  have ne: "dropWhile is_space (buffer ins) \<noteq> []"
  proof
    assume e: "dropWhile is_space (buffer ins) = []"
    have "no_numeral (buffer ins)" unfolding no_numeral_def e by (simp add: skip_sign_def)
    with assms(2) show False by simp
  qed
  have k: "INT_MAX < (if neg then - int (digits_value (takeWhile is_digit cs1))
                     else int (digits_value (takeWhile is_digit cs1)))"
    using assms(3) sk by (simp add: numeral_value_def Let_def)
  show ?thesis using assms(1) ne sk ds k
    by (auto simp add: extract_int_def Let_def INT_MAX_def)
qed

lemma extract_int_too_small:
  assumes "\<not> failed ins" and "\<not> no_numeral (buffer ins)"
    and "numeral_value (buffer ins) < INT_MIN"
  shows "snd (extract_int ins v) = - 2147483648 \<and> failed (fst (extract_int ins v))"
proof -
  obtain neg cs1 where sk: "skip_sign (dropWhile is_space (buffer ins)) = (neg, cs1)"
    by (cases "skip_sign (dropWhile is_space (buffer ins))")
  have ds: "takeWhile is_digit cs1 \<noteq> []" using assms(2) sk by (simp add: no_numeral_def)
  have ne: "dropWhile is_space (buffer ins) \<noteq> []"
  proof
    assume e: "dropWhile is_space (buffer ins) = []"
    have "no_numeral (buffer ins)" unfolding no_numeral_def e by (simp add: skip_sign_def)
    with assms(2) show False by simp
  qed
  have k: "(if neg then - int (digits_value (takeWhile is_digit cs1))
            else int (digits_value (takeWhile is_digit cs1))) < INT_MIN"
    using assms(3) sk by (simp add: numeral_value_def Let_def)
  then have k': "\<not> INT_MAX < (if neg then - int (digits_value (takeWhile is_digit cs1))
            else int (digits_value (takeWhile is_digit cs1)))"
    by (simp add: INT_MAX_def INT_MIN_def)
  show ?thesis using assms(1) ne sk ds k k'
    by (auto simp add: extract_int_def Let_def INT_MAX_def INT_MIN_def)
qed

lemma extract_int_failed_values:
  "failed (fst (extract_int ins 0)) \<Longrightarrow>
   snd (extract_int ins 0) \<in> {0, 2147483647, - 2147483648}"
  by (auto simp: extract_int_def Let_def INT_MAX_def INT_MIN_def
      split: if_splits prod.splits)

lemma getValueFromUser_extract:
  "fst (getValueFromUser s) = snd (extract_int (cin s) 0)
   \<and> cin (snd (getValueFromUser s)) = fst (extract_int (cin s) 0)
   \<and> shown (snd (getValueFromUser s)) = shown s @ [Text ''Enter an integer: '']"
  by (simp add: getValueFromUser_def cin_extract_def split_beta cin_say shown_say)

lemma return_values_main_output:
  "shown (return_values_main s) = shown s @
     [Text ''Enter an integer: '', Num (sint (fst (getValueFromUser s))),
      Text '' doubled is: '', Num (sint (fst (getValueFromUser s) * 2)), Text ''\<newline>'']"
  using getValueFromUser_extract [of s]
  by (simp add: return_values_main_def split_beta shown_say)

text \<open>
  Claim C6, as amended. \<^verbatim>\<open>getValueFromUser\<close> prompts once and extracts once, whatever
  the input, and the result derived from its value is computed from the value it returns:
  nothing is tried again. When the input has no numeral, or the stream has failed before,
  it returns 0, the value its local was initialised with and the value a failed
  extraction assigns, and leaves the stream failed; the examples print that 0 doubled is
  0, and every later extraction of the iostream example leaves its variable at 0. When
  the extraction fails because the numeral is too large or too small for an int, the
  value returned is the largest or the smallest int. A failed extraction returns one of
  these three values.
\<close>

theorem failed_extraction_leaves_value:
  "shown (snd (getValueFromUser s)) = shown s @ [Text ''Enter an integer: '']
   \<and> shown (return_values_main s) = shown s @
        [Text ''Enter an integer: '', Num (sint (fst (getValueFromUser s))),
         Text '' doubled is: '', Num (sint (fst (getValueFromUser s) * 2)), Text ''\<newline>'']
   \<and> (failed (cin s) \<or> no_numeral (buffer (cin s)) \<longrightarrow>
        fst (getValueFromUser s) = 0
      \<and> failed (cin (snd (getValueFromUser s)))
      \<and> shown (return_values_main s) = shown s @
           [Text ''Enter an integer: '', Num 0, Text '' doubled is: '', Num 0,
            Text ''\<newline>'']
      \<and> shown (printDouble_example s) = shown s @
           [Text ''printDouble() example...\<newline>'', Text ''Enter an integer: '',
            Num 0, Text '' doubled is: '', Num 0, Text ''\<newline>'']
      \<and> shown (iostream_example_main s) = shown s @
           [Text ''Enter a number: '', Text ''You entered '', Num 0, Text ''\<newline>'',
            Text ''Enter two numbers separated by a space: '',
            Text ''You entered '', Num 0, Text '' and '', Num 0, Text ''\<newline>'',
            Text ''Enter two numbers: '',
            Text ''You entered '', Num 0, Text '' and '', Num 0, Text ''\<newline>''])
   \<and> (\<not> failed (cin s) \<and> \<not> no_numeral (buffer (cin s))
        \<and> INT_MAX < numeral_value (buffer (cin s)) \<longrightarrow>
        fst (getValueFromUser s) = 2147483647 \<and> failed (cin (snd (getValueFromUser s))))
   \<and> (\<not> failed (cin s) \<and> \<not> no_numeral (buffer (cin s))
        \<and> numeral_value (buffer (cin s)) < INT_MIN \<longrightarrow>
        fst (getValueFromUser s) = - 2147483648 \<and> failed (cin (snd (getValueFromUser s))))
   \<and> (failed (cin (snd (getValueFromUser s))) \<longrightarrow>
        fst (getValueFromUser s) \<in> {0, 2147483647, - 2147483648})"
proof -
  note g = getValueFromUser_extract [of s]
  have a: "shown (snd (getValueFromUser s)) = shown s @ [Text ''Enter an integer: '']"
    using g by simp
  have c: "\<not> failed (cin s) \<and> \<not> no_numeral (buffer (cin s))
        \<and> INT_MAX < numeral_value (buffer (cin s)) \<longrightarrow>
        fst (getValueFromUser s) = 2147483647 \<and> failed (cin (snd (getValueFromUser s)))"
    using g extract_int_too_large [of "cin s" 0] by simp
  have d: "\<not> failed (cin s) \<and> \<not> no_numeral (buffer (cin s))
        \<and> numeral_value (buffer (cin s)) < INT_MIN \<longrightarrow>
        fst (getValueFromUser s) = - 2147483648 \<and> failed (cin (snd (getValueFromUser s)))"
    using g extract_int_too_small [of "cin s" 0] by simp
  have e: "failed (cin (snd (getValueFromUser s))) \<longrightarrow>
        fst (getValueFromUser s) \<in> {0, 2147483647, - 2147483648}"
    using g extract_int_failed_values [of "cin s"] by simp
  from a return_values_main_output [of s] no_numeral_outputs [of s] c d e
  show ?thesis by blast
qed

theorem failed_extraction_leaves_value_witness:
  "fst (getValueFromUser (console_with ''abc'')) = 0
   \<and> failed (cin (snd (getValueFromUser (console_with ''abc''))))
   \<and> shown (return_values_main (console_with ''abc'')) =
        [Text ''Enter an integer: '', Num 0, Text '' doubled is: '', Num 0, Text ''\<newline>'']
   \<and> fst (getValueFromUser (console_with ''2147483648'')) = 2147483647
   \<and> fst (getValueFromUser (console_with ''-2147483649'')) = - 2147483648
   \<and> fst (getValueFromUser (console_with ''-2147483649'')) \<in> {0, 2147483647, - 2147483648}"
proof -
  have h1: "failed (cin (console_with ''abc'')) \<or> no_numeral (buffer (cin (console_with ''abc'')))"
    by (simp add: console_with_def no_numeral_def skip_sign_def is_space_def is_digit_def)
  have h2: "\<not> failed (cin (console_with ''2147483648''))
      \<and> \<not> no_numeral (buffer (cin (console_with ''2147483648'')))
      \<and> INT_MAX < numeral_value (buffer (cin (console_with ''2147483648'')))"
    by (simp add: console_with_def no_numeral_def numeral_value_def skip_sign_def is_space_def
        is_digit_def digits_value_def digit_value_def INT_MAX_def)
  have h3: "\<not> failed (cin (console_with ''-2147483649''))
      \<and> \<not> no_numeral (buffer (cin (console_with ''-2147483649'')))
      \<and> numeral_value (buffer (cin (console_with ''-2147483649''))) < INT_MIN"
    by (simp add: console_with_def no_numeral_def numeral_value_def skip_sign_def is_space_def
        is_digit_def digits_value_def digit_value_def INT_MIN_def)
  from failed_extraction_leaves_value [of "console_with ''abc''"] h1
  have w1: "fst (getValueFromUser (console_with ''abc'')) = 0
      \<and> failed (cin (snd (getValueFromUser (console_with ''abc''))))
      \<and> shown (return_values_main (console_with ''abc'')) =
          shown (console_with ''abc'') @
          [Text ''Enter an integer: '', Num 0, Text '' doubled is: '', Num 0, Text ''\<newline>'']"
    by blast
  from failed_extraction_leaves_value [of "console_with ''2147483648''"] h2
  have w2: "fst (getValueFromUser (console_with ''2147483648'')) = 2147483647" by blast
  from failed_extraction_leaves_value [of "console_with ''-2147483649''"] h3
  have w3: "fst (getValueFromUser (console_with ''-2147483649'')) = - 2147483648
      \<and> fst (getValueFromUser (console_with ''-2147483649'')) \<in> {0, 2147483647, - 2147483648}"
    by blast
  have sh: "shown (console_with ''abc'') = []" by (simp add: console_with_def)
  from w1 w2 w3 show ?thesis by (simp add: sh)
qed

text \<open>
  The claim as first stated, that every failed extraction leaves 0 to be returned and
  doubled, fails for a numeral that is too large: on the input 99999999999 the
  extraction fails, \<^verbatim>\<open>getValueFromUser\<close> returns the largest int, and the example prints
  that 2147483647 doubled is -2.
\<close>

theorem out_of_range_input_counterexample:
  "failed (cin (snd (getValueFromUser (console_with ''99999999999''))))
   \<and> fst (getValueFromUser (console_with ''99999999999'')) = 2147483647
   \<and> fst (getValueFromUser (console_with ''99999999999'')) \<noteq> 0
   \<and> shown (return_values_main (console_with ''99999999999'')) =
        [Text ''Enter an integer: '', Num 2147483647, Text '' doubled is: '', Num (- 2),
         Text ''\<newline>'']"
  by (simp add: return_values_main_def getValueFromUser_def cin_extract_def say_def
      console_with_def extract_int_def is_space_def is_digit_def skip_sign_def
      digits_value_def digit_value_def INT_MAX_def INT_MIN_def Let_def)

subsection \<open>Unbounded recursion\<close>

lemma div_step:
  fixes x frame :: nat
  assumes "0 < frame" and "frame \<le> x"
  shows "x div frame = Suc ((x - frame) div frame)"
  using assms by (simp add: le_div_geq)

lemma eat_stack_overflows:
  "0 \<le> sint (g_counter s) \<Longrightarrow> sint (g_counter s) + int m < 2 ^ 31 \<Longrightarrow>
   m = (limit - used - io) div frame \<Longrightarrow> 0 < frame \<or> limit < used + io \<Longrightarrow>
   eat_stack limit frame io used s =
     StackOverflow \<lparr>g_counter = g_counter s
         + of_nat (if used + (m + 1) * frame \<le> limit then m + 1 else m),
       printed = printed s @ counter_lines (sint (g_counter s)) m\<rparr>"
proof (induction limit frame io used s arbitrary: m rule: eat_stack.induct)
  case (1 limit frame io used s)
  show ?case
  proof (cases "limit < used + frame")
    case True
    have m0: "m = 0"
    proof (cases "frame = 0")
      case True
      with "1.prems"(3) show ?thesis by simp
    next
      case False
      with True have "limit - used - io < frame" by simp
      with "1.prems"(3) show ?thesis by simp
    qed
    have "eat_stack limit frame io used s = StackOverflow s"
      using True by (subst eat_stack.simps) simp
    then show ?thesis using True m0 by simp
  next
    case enter: False
    define s1 where "s1 = s\<lparr>g_counter := g_counter s + 1\<rparr>"
    show ?thesis
    proof (cases "limit < used + frame + io")
      case True
      have m0: "m = 0"
      proof (cases "frame = 0")
        case True
        with "1.prems"(3) show ?thesis by simp
      next
        case False
        with True have "limit - used - io < frame" by simp
        with "1.prems"(3) show ?thesis by simp
      qed
      have "eat_stack limit frame io used s = StackOverflow s1"
        using enter True by (subst eat_stack.simps) (simp add: s1_def)
      then show ?thesis using enter m0 by (simp add: s1_def)
    next
      case out: False
      define s2 where
        "s2 = s1\<lparr>printed := printed s1 @ [Num (sint (g_counter s1)), Text ''\<newline>'']\<rparr>"
      from out "1.prems"(4) have fpos: "0 < frame" by simp
      from out have ge: "frame \<le> limit - used - io" by simp
      define m' where "m' = (limit - (used + frame) - io) div frame"
      have "limit - used - io - frame = limit - (used + frame) - io" by simp
      with div_step [OF fpos ge] "1.prems"(3) have mm: "m = Suc m'" by (simp add: m'_def)
      have lt: "sint (g_counter s) < 2147483647" using "1.prems"(2) mm by simp
      then have sc: "sint (g_counter s + 1) = sint (g_counter s) + 1" by (rule sint_succ)
      have pos: "0 < sint (g_counter s2)" using sc "1.prems"(1) by (simp add: s2_def s1_def)
      have p1: "0 \<le> sint (g_counter s2)" using pos by simp
      have p2: "sint (g_counter s2) + int m' < 2 ^ 31"
        using sc "1.prems"(2) mm by (simp add: s2_def s1_def)
      have p4: "0 < frame \<or> limit < used + frame + io" using fpos by simp
      have ih: "eat_stack limit frame io (used + frame) s2 =
        StackOverflow \<lparr>g_counter = g_counter s2
            + of_nat (if used + frame + (m' + 1) * frame \<le> limit then m' + 1 else m'),
          printed = printed s2 @ counter_lines (sint (g_counter s2)) m'\<rparr>"
        using "1.IH" [OF enter s1_def out s2_def pos p1 p2 m'_def p4] .
      have "eat_stack limit frame io used s = eat_stack limit frame io (used + frame) s2"
        using enter out pos ih by (subst eat_stack.simps) (simp add: Let_def s1_def s2_def)
      also note ih
      finally show ?thesis using sc mm by (simp add: s2_def s1_def algebra_simps)
    qed
  qed
qed


lemma sint_int_max_succ:
  assumes "sint (c :: cpp_int) = 2147483647"
  shows "c + 1 = - 2147483648"
proof -
  have "word_of_int (sint c) = (word_of_int 2147483647 :: cpp_int)" by (simp only: assms)
  then have "c = 2147483647" by simp
  then show ?thesis by simp
qed

lemma eat_stack_returns:
  "0 \<le> sint (g_counter s) \<Longrightarrow> r = nat (2 ^ 31 - sint (g_counter s)) \<Longrightarrow>
   used + r * frame + io \<le> limit \<Longrightarrow>
   eat_stack limit frame io used s =
     Returned \<lparr>g_counter = - 2147483648,
       printed = printed s @ counter_lines (sint (g_counter s)) (r - 1)
         @ [Num (- 2147483648), Text ''\<newline>'']
         @ concat (replicate r [Text ''hi'', Text ''\<newline>''])\<rparr>"
proof (induction limit frame io used s arbitrary: r rule: eat_stack.induct)
  case (1 limit frame io used s)
  have hi: "sint (g_counter s) < 2 ^ 31" using sint_lt [of "g_counter s"] by simp
  then have rpos: "0 < r" using "1.prems"(2) by simp
  then have fr: "frame \<le> r * frame" by (cases r) simp_all
  have enter: "\<not> limit < used + frame" using "1.prems"(3) fr by linarith
  have out: "\<not> limit < used + frame + io" using "1.prems"(3) fr by linarith
  define s1 where "s1 = s\<lparr>g_counter := g_counter s + 1\<rparr>"
  define s2 where
    "s2 = s1\<lparr>printed := printed s1 @ [Num (sint (g_counter s1)), Text ''\<newline>'']\<rparr>"
  show ?case
  proof (cases "sint (g_counter s) = 2147483647")
    case True
    then have r1: "r = 1" using "1.prems"(2) by simp
    have g1: "g_counter s + 1 = - 2147483648" using True by (rule sint_int_max_succ)
    have "eat_stack limit frame io used s =
        Returned (s2\<lparr>printed := printed s2 @ [Text ''hi'', Text ''\<newline>'']\<rparr>)"
      using enter out by (subst eat_stack.simps) (simp add: Let_def s1_def s2_def g1)
    then show ?thesis using r1 by (simp add: s2_def s1_def g1)
  next
    case False
    with hi have lt: "sint (g_counter s) < 2147483647" by simp
    then have sc: "sint (g_counter s + 1) = sint (g_counter s) + 1" by (rule sint_succ)
    have pos: "0 < sint (g_counter s2)" using sc "1.prems"(1) by (simp add: s2_def s1_def)
    define r' where "r' = nat (2 ^ 31 - sint (g_counter s2))"
    have rr: "r = Suc r'" and r'pos: "0 < r'"
      using sc lt "1.prems"(1,2) by (simp_all add: r'_def s2_def s1_def)
    have p1: "0 \<le> sint (g_counter s2)" using pos by simp
    have p3: "used + frame + r' * frame + io \<le> limit" using "1.prems"(3) rr by simp
    have ih: "eat_stack limit frame io (used + frame) s2 =
      Returned \<lparr>g_counter = - 2147483648,
        printed = printed s2 @ counter_lines (sint (g_counter s2)) (r' - 1)
          @ [Num (- 2147483648), Text ''\<newline>'']
          @ concat (replicate r' [Text ''hi'', Text ''\<newline>''])\<rparr>"
      using "1.IH" [OF enter s1_def out s2_def pos p1 r'_def p3] .
    obtain k where k: "r' = Suc k" using r'pos by (cases r') auto
    have "eat_stack limit frame io used s =
      Returned \<lparr>g_counter = - 2147483648,
        printed = (printed s2 @ counter_lines (sint (g_counter s2)) (r' - 1)
          @ [Num (- 2147483648), Text ''\<newline>'']
          @ concat (replicate r' [Text ''hi'', Text ''\<newline>'']))
          @ [Text ''hi'', Text ''\<newline>'']\<rparr>"
      using enter out pos ih by (subst eat_stack.simps) (simp add: Let_def s1_def s2_def)
    also have "(printed s2 @ counter_lines (sint (g_counter s2)) (r' - 1)
          @ [Num (- 2147483648), Text ''\<newline>'']
          @ concat (replicate r' [Text ''hi'', Text ''\<newline>'']))
          @ [Text ''hi'', Text ''\<newline>'']
        = printed s @ counter_lines (sint (g_counter s)) (r - 1)
          @ [Num (- 2147483648), Text ''\<newline>'']
          @ concat (replicate r [Text ''hi'', Text ''\<newline>''])"
      using sc rr k concat_replicate_snoc [of r' "[Text ''hi'', Text ''\<newline>'']"]
      by (simp add: s2_def s1_def)
    finally show ?thesis .
  qed
qed

text \<open>
  Claim C7, as amended. \<^verbatim>\<open>eat_stack\<close> increments and prints the counter and calls
  itself whenever the counter is positive. The counter is positive after the increment
  as long as it has not passed the largest int. So on every stack that cannot hold
  \<open>2 ^ 31\<close> frames of \<^verbatim>\<open>eat_stack\<close> with an output statement on top, the call from
  \<^verbatim>\<open>main\<close> never returns: with \<open>n = (limit - io) div frame\<close> it prints 1 to \<open>n\<close>,
  never prints "hi", and the process is terminated when the stack runs out, at the next
  call (counter \<open>n\<close>) or inside the next output statement, after the increment (counter
  \<open>n + 1\<close>).
\<close>

theorem eat_stack_never_returns:
  assumes "limit < 2 ^ 31 * frame + io"
  shows "eat_stack_main limit frame io =
           StackOverflow \<lparr>g_counter =
               of_nat (if ((limit - io) div frame + 1) * frame \<le> limit
                       then (limit - io) div frame + 1 else (limit - io) div frame),
             printed = counter_lines 0 ((limit - io) div frame)\<rparr>
    \<and> (\<forall>s. eat_stack_main limit frame io \<noteq> Returned s)"
proof -
  define m where "m = (limit - io) div frame"
  have mlt: "int m < 2 ^ 31"
  proof (cases "frame = 0")
    case True
    then show ?thesis by (simp add: m_def)
  next
    case False
    have "limit < 2147483648 * frame + io" using assms by simp
    then have "limit - io < 2147483648 * frame" using False by arith
    then have "m < 2147483648" unfolding m_def by (rule less_mult_imp_div_less)
    then show ?thesis by (simp flip: of_nat_less_iff)
  qed
  have fr: "0 < frame \<or> limit < 0 + io" using assms by (cases "frame = 0") simp_all
  have "eat_stack limit frame io 0 \<lparr>g_counter = 0, printed = []\<rparr> =
     StackOverflow \<lparr>g_counter = g_counter \<lparr>g_counter = 0, printed = []\<rparr>
         + of_nat (if 0 + (m + 1) * frame \<le> limit then m + 1 else m),
       printed = printed \<lparr>g_counter = 0, printed = []\<rparr>
         @ counter_lines (sint (g_counter \<lparr>g_counter = 0, printed = []\<rparr>)) m\<rparr>"
    using mlt fr by (intro eat_stack_overflows) (simp_all add: m_def)
  then have "eat_stack_main limit frame io =
      StackOverflow \<lparr>g_counter = of_nat (if (m + 1) * frame \<le> limit then m + 1 else m),
        printed = counter_lines 0 m\<rparr>"
    by (simp add: eat_stack_main_def)
  then show ?thesis by (simp add: m_def)
qed

theorem eat_stack_never_returns_witness:
  "(10 :: nat) < 2 ^ 31 * 3 + 2
   \<and> eat_stack_main 10 3 2 = StackOverflow \<lparr>g_counter = 3,
        printed = [Num 1, Text ''\<newline>'', Num 2, Text ''\<newline>'']\<rparr>"
proof -
  have h: "(10 :: nat) < 2 ^ 31 * 3 + 2" by simp
  have c: "counter_lines 0 2 = [Num 1, Text ''\<newline>'', Num 2, Text ''\<newline>'']"
    by (simp add: numeral_2_eq_2)
  have d: "(10 - 2) div 3 = (2 :: nat)" by simp
  from eat_stack_never_returns [OF h] show ?thesis using h c d by simp
qed

text \<open>
  The claim as first stated, that the call never returns whatever the platform, fails
  on a stack with room for \<open>2 ^ 31\<close> frames: the counter wraps around to the smallest
  int, the guard is false, and every call prints "hi" and returns. Here the frames take
  16 bytes, an output statement 4096, and the stack has \<open>2 ^ 31 * 16 + 4096\<close> bytes.
\<close>

theorem eat_stack_returns_counterexample:
  "eat_stack_main 34359742464 16 4096 =
     Returned \<lparr>g_counter = - 2147483648,
       printed = counter_lines 0 2147483647
         @ [Num (- 2147483648), Text ''\<newline>'']
         @ concat (replicate 2147483648 [Text ''hi'', Text ''\<newline>''])\<rparr>"
proof -
  have "eat_stack 34359742464 16 4096 0 \<lparr>g_counter = 0, printed = []\<rparr> =
     Returned \<lparr>g_counter = - 2147483648,
       printed = printed \<lparr>g_counter = 0, printed = []\<rparr>
         @ counter_lines (sint (g_counter \<lparr>g_counter = 0, printed = []\<rparr>)) (2147483648 - 1)
         @ [Num (- 2147483648), Text ''\<newline>'']
         @ concat (replicate 2147483648 [Text ''hi'', Text ''\<newline>''])\<rparr>"
    by (rule eat_stack_returns) simp_all
  then show ?thesis by (simp add: eat_stack_main_def)
qed

end
